theory Spec2Isabelle
  imports Main "HOL-Library.Word" "HOL-Library.Code_Target_Nat"
begin

unbundle bit_operations_syntax

section \<open>Bytes and text\<close>

text \<open>
  The module \<^verbatim>\<open>callisto/delivery/models.py\<close> moves data between Python \<^verbatim>\<open>str\<close>
  (report text, keys, salts) and \<^verbatim>\<open>bytes\<close> (cipher text). Bytes are lists of 8-bit
  words. Text is a list of Unicode scalar values: code points below \<open>0x110000\<close> that are
  not surrogates. A Python 3 \<^verbatim>\<open>str\<close> holding a lone surrogate is outside this type: on
  such a key, salt or text \<^verbatim>\<open>pbkdf2\<close> and \<^verbatim>\<open>.encode('utf-8')\<close> raise
  \<^verbatim>\<open>UnicodeEncodeError\<close>, so no blob is made and no decryption is tried. The model makes
  no statement about that error.
\<close>

type_synonym byte = "8 word"
type_synonym bytes = "byte list"

definition is_scalar :: "nat \<Rightarrow> bool" where
  "is_scalar n = (n < 0x110000 \<and> \<not> (0xD800 \<le> n \<and> n \<le> 0xDFFF))"

typedef scalar = "{n. is_scalar n}"
  by (rule exI [of _ 0]) (simp add: is_scalar_def)

setup_lifting type_definition_scalar

text \<open>
  \<open>code_point\<close> is Python's \<^verbatim>\<open>ord\<close>. \<open>scalar_of\<close> makes a character from a number; a
  number that is no scalar value gives \<open>U+FFFD\<close> (no function of the model calls it on
  one).
\<close>

lift_definition code_point :: "scalar \<Rightarrow> nat" is "\<lambda>n. n" .

lift_definition scalar_of :: "nat \<Rightarrow> scalar" is "\<lambda>n. if is_scalar n then n else 0xFFFD"
  by (simp add: is_scalar_def)

instantiation scalar :: equal
begin

lift_definition equal_scalar :: "scalar \<Rightarrow> scalar \<Rightarrow> bool" is "\<lambda>a b. a = b" .

instance
  by standard (transfer, simp)

end

type_synonym str = "scalar list"

text \<open>Text at concrete inputs: the code points of an Isabelle string (all below 256).\<close>

definition str_of :: "string \<Rightarrow> str" where
  "str_of s = map (\<lambda>c. scalar_of (of_char c)) s"

datatype error = CryptoError | UnicodeDecodeError

subsection \<open>The UTF-8 codec of \<^verbatim>\<open>report_text.encode('utf-8')\<close> and \<^verbatim>\<open>decrypted.decode('utf-8')\<close>\<close>

definition encode_cp :: "nat \<Rightarrow> nat list" where
  "encode_cp c =
     (if c < 0x80 then [c]
      else if c < 0x800 then [0xC0 + c div 0x40, 0x80 + c mod 0x40]
      else if c < 0x10000 then
        [0xE0 + c div 0x1000, 0x80 + c div 0x40 mod 0x40, 0x80 + c mod 0x40]
      else
        [0xF0 + c div 0x40000, 0x80 + c div 0x1000 mod 0x40,
         0x80 + c div 0x40 mod 0x40, 0x80 + c mod 0x40])"

definition utf8_encode :: "str \<Rightarrow> bytes" where
  "utf8_encode s = map of_nat (concat (map (\<lambda>c. encode_cp (code_point c)) s))"

definition is_cont :: "nat \<Rightarrow> bool" where
  "is_cont b = (0x80 \<le> b \<and> b < 0xC0)"

text \<open>
  The strict decoder: one code point from a lead byte \<open>b0\<close> and the bytes after it,
  with the number of continuation bytes it used. Overlong forms, surrogates, code points
  past \<open>0x10FFFF\<close>, stray continuation bytes and truncated sequences are refused, as
  Python's \<^verbatim>\<open>UnicodeDecodeError\<close> does.
\<close>

definition decode_cp :: "nat \<Rightarrow> nat list \<Rightarrow> (nat \<times> nat) option" where
  "decode_cp b0 bs =
     (if b0 < 0x80 then Some (b0, 0)
      else if b0 < 0xC0 then None
      else if b0 < 0xE0 then
        (case bs of
           b1 # _ \<Rightarrow>
             (let c = (b0 - 0xC0) * 0x40 + (b1 - 0x80)
              in if is_cont b1 \<and> 0x80 \<le> c then Some (c, 1) else None)
         | _ \<Rightarrow> None)
      else if b0 < 0xF0 then
        (case bs of
           b1 # b2 # _ \<Rightarrow>
             (let c = (b0 - 0xE0) * 0x1000 + (b1 - 0x80) * 0x40 + (b2 - 0x80)
              in if is_cont b1 \<and> is_cont b2 \<and> 0x800 \<le> c \<and> is_scalar c
                 then Some (c, 2) else None)
         | _ \<Rightarrow> None)
      else if b0 < 0xF8 then
        (case bs of
           b1 # b2 # b3 # _ \<Rightarrow>
             (let c = (b0 - 0xF0) * 0x40000 + (b1 - 0x80) * 0x1000
                      + (b2 - 0x80) * 0x40 + (b3 - 0x80)
              in if is_cont b1 \<and> is_cont b2 \<and> is_cont b3 \<and> 0x10000 \<le> c \<and> is_scalar c
                 then Some (c, 3) else None)
         | _ \<Rightarrow> None)
      else None)"

fun decode_cps :: "nat list \<Rightarrow> nat list option" where
  "decode_cps [] = Some []"
| "decode_cps (b0 # bs) =
     (case decode_cp b0 bs of
        None \<Rightarrow> None
      | Some (c, k) \<Rightarrow> map_option ((#) c) (decode_cps (drop k bs)))"

definition utf8_decode :: "bytes \<Rightarrow> error + str" where
  "utf8_decode bs =
     (case decode_cps (map unat bs) of
        None \<Rightarrow> Inl UnicodeDecodeError
      | Some cs \<Rightarrow> Inr (map scalar_of cs))"

section \<open>The libraries and settings the module calls\<close>

text \<open>
  \<^verbatim>\<open>models.py\<close> calls Django's \<^verbatim>\<open>pbkdf2\<close>, \<^verbatim>\<open>get_random_string\<close> and
  \<^verbatim>\<open>timezone.now\<close>, PyNaCl's \<^verbatim>\<open>SecretBox\<close> and \<^verbatim>\<open>nacl.utils.random\<close>, and reads
  \<^verbatim>\<open>settings.KEY_ITERATIONS\<close> and \<^verbatim>\<open>settings.PEPPER\<close>. None of them is part of the
  repository, so they are parameters of the model: a record of functions and constants.
  The type \<open>'w\<close> is the state of the outside world the calls read: the entropy pool and
  the clock. \<open>SecretBox_encrypt env key plaintext nonce\<close> is
  \<^verbatim>\<open>nacl.secret.SecretBox(key).encrypt(plaintext, nonce)\<close> and
  \<open>SecretBox_decrypt env key ciphertext\<close> is \<^verbatim>\<open>SecretBox(key).decrypt(ciphertext)\<close>, with
  \<open>None\<close> for the \<^verbatim>\<open>CryptoError\<close> that the docstrings of \<^verbatim>\<open>_decrypt_report\<close> and
  \<^verbatim>\<open>_unpepper\<close> say it raises. \<open>NONCE_SIZE\<close> is \<^verbatim>\<open>SecretBox.NONCE_SIZE\<close>.
\<close>

record 'w env =
  KEY_ITERATIONS :: nat
  PEPPER :: bytes
  pbkdf2 :: "str \<Rightarrow> str \<Rightarrow> nat \<Rightarrow> bytes"
  NONCE_SIZE :: nat
  SecretBox_encrypt :: "bytes \<Rightarrow> bytes \<Rightarrow> bytes \<Rightarrow> bytes"
  SecretBox_decrypt :: "bytes \<Rightarrow> bytes \<Rightarrow> bytes option"
  os_urandom :: "'w \<Rightarrow> byte \<times> 'w"
  get_random_string :: "'w \<Rightarrow> str \<times> 'w"
  timezone_now :: "'w \<Rightarrow> nat"

text \<open>
  The size of a box key: the docstring of \<^verbatim>\<open>_encrypt_report\<close> has the key "stretched to
  32 bytes", that of \<^verbatim>\<open>_pepper\<close> "requires settings.PEPPER to be set to a 32 byte value".
\<close>

definition KEY_SIZE :: nat where
  "KEY_SIZE = 32"

text \<open>\<^verbatim>\<open>nacl.utils.random(size)\<close>: \<open>size\<close> bytes drawn one after the other.\<close>

fun utils_random :: "'w env \<Rightarrow> nat \<Rightarrow> 'w \<Rightarrow> bytes \<times> 'w" where
  "utils_random env 0 w = ([], w)"
| "utils_random env (Suc n) w =
     (case os_urandom env w of
        (b, w1) \<Rightarrow> (case utils_random env n w1 of (bs, w2) \<Rightarrow> (b # bs, w2)))"

section \<open>The module functions\<close>

text \<open>
  \<open>U_encrypt_report\<close>, \<open>U_decrypt_report\<close>, \<open>U_pepper\<close> and \<open>U_unpepper\<close> are
  \<^verbatim>\<open>_encrypt_report\<close>, \<^verbatim>\<open>_decrypt_report\<close>, \<^verbatim>\<open>_pepper\<close> and \<^verbatim>\<open>_unpepper\<close>
  (an Isabelle name cannot start with an underscore). A function that draws random bytes
  takes the world and returns it after the draw; a function that can raise returns
  \<open>error + 'a\<close>.
\<close>

definition U_encrypt_report :: "'w env \<Rightarrow> str \<Rightarrow> str \<Rightarrow> str \<Rightarrow> 'w \<Rightarrow> bytes \<times> 'w" where
  "U_encrypt_report env salt key report_text w =
     (let stretched_key = pbkdf2 env key salt (KEY_ITERATIONS env);
          message = utf8_encode report_text
      in case utils_random env (NONCE_SIZE env) w of
           (nonce, w') \<Rightarrow> (SecretBox_encrypt env stretched_key message nonce, w'))"

definition U_decrypt_report :: "'w env \<Rightarrow> str \<Rightarrow> str \<Rightarrow> bytes \<Rightarrow> error + str" where
  "U_decrypt_report env salt key encrypted =
     (let stretched_key = pbkdf2 env key salt (KEY_ITERATIONS env)
      in case SecretBox_decrypt env stretched_key encrypted of
           None \<Rightarrow> Inl CryptoError
         | Some decrypted \<Rightarrow> utf8_decode decrypted)"

definition U_pepper :: "'w env \<Rightarrow> bytes \<Rightarrow> 'w \<Rightarrow> bytes \<times> 'w" where
  "U_pepper env encrypted_report w =
     (let pepper = PEPPER env
      in case utils_random env (NONCE_SIZE env) w of
           (nonce, w') \<Rightarrow> (SecretBox_encrypt env pepper encrypted_report nonce, w'))"

definition U_unpepper :: "'w env \<Rightarrow> bytes \<Rightarrow> error + bytes" where
  "U_unpepper env peppered_report =
     (let pepper = PEPPER env
      in case SecretBox_decrypt env pepper peppered_report of
           None \<Rightarrow> Inl CryptoError
         | Some decrypted \<Rightarrow> Inr decrypted)"

section \<open>The Django models\<close>

text \<open>
  \<^verbatim>\<open>Report\<close> and \<^verbatim>\<open>MatchReport\<close>, field by field; \<open>pk\<close> is the primary key, a
  foreign key is the key of the row it points to, times are numbers, a nullable field is
  an option. The two models share field names, so a field is written with its record:
  \<open>Report.salt\<close>, \<open>MatchReport.salt\<close>.
\<close>

record Report =
  pk :: nat
  encrypted :: bytes
  owner :: nat
  added :: nat
  autosaved :: bool
  last_edited :: "nat option"
  salt :: str
  submitted_to_school :: "nat option"
  contact_phone :: "str option"
  contact_voicemail :: "str option"
  contact_email :: "str option"
  contact_notes :: "str option"
  contact_name :: "str option"
  match_found :: bool

record MatchReport =
  pk :: nat
  report :: nat
  contact_email :: str
  "identifier" :: "str option"
  added :: nat
  seen :: bool
  encrypted :: bytes
  salt :: str

subsection \<open>Report\<close>

text \<open>
  A method takes the object (and the world, when it draws random values or reads the
  clock) and returns the object as the method leaves it. \<open>edit\<close> is the truth value of
  the argument \<^verbatim>\<open>edit\<close>.
\<close>

definition encrypt_report ::
  "'w env \<Rightarrow> Report \<Rightarrow> str \<Rightarrow> str \<Rightarrow> bool \<Rightarrow> bool \<Rightarrow> 'w \<Rightarrow> Report \<times> 'w" where
  "encrypt_report env self report_text key edit autosave w =
     (case (if Report.salt self = [] then
              (case get_random_string env w of (s, w') \<Rightarrow> (self\<lparr>Report.salt := s\<rparr>, w'))
            else if edit then (self\<lparr>last_edited := Some (timezone_now env w)\<rparr>, w)
            else (self, w)) of
        (self1, w1) \<Rightarrow>
          (let self2 = self1\<lparr>autosaved := autosave\<rparr>
           in case U_encrypt_report env (Report.salt self2) key report_text w1 of
                (blob, w2) \<Rightarrow> (self2\<lparr>Report.encrypted := blob\<rparr>, w2)))"

definition decrypted_report :: "'w env \<Rightarrow> Report \<Rightarrow> str \<Rightarrow> error + str" where
  "decrypted_report env self key =
     U_decrypt_report env (Report.salt self) key (Report.encrypted self)"

text \<open>
  \<^verbatim>\<open>self.matchreport_set\<close> is the rows of the \<^verbatim>\<open>MatchReport\<close> table whose foreign key
  \<^verbatim>\<open>report\<close> is this report; \<^verbatim>\<open>.all().delete()\<close> removes them from the table. The
  method does not save the report: \<^verbatim>\<open>match_found\<close> changes on the object.
\<close>

definition matchreport_set :: "Report \<Rightarrow> MatchReport list \<Rightarrow> MatchReport list" where
  "matchreport_set self matchreports =
     filter (\<lambda>m. MatchReport.report m = Report.pk self) matchreports"

definition withdraw_from_matching ::
  "Report \<Rightarrow> MatchReport list \<Rightarrow> Report \<times> MatchReport list" where
  "withdraw_from_matching self matchreports =
     (let matchreports' =
            filter (\<lambda>m. MatchReport.report m \<noteq> Report.pk self) matchreports
      in (self\<lparr>match_found := False\<rparr>, matchreports'))"

subsection \<open>MatchReport\<close>

definition encrypt_match_report ::
  "'w env \<Rightarrow> MatchReport \<Rightarrow> str \<Rightarrow> str \<Rightarrow> 'w \<Rightarrow> MatchReport \<times> 'w" where
  "encrypt_match_report env self report_text key w =
     (case get_random_string env w of
        (s, w1) \<Rightarrow>
          (let self1 = self\<lparr>MatchReport.salt := s\<rparr>
           in case U_encrypt_report env (MatchReport.salt self1) key report_text w1 of
                (blob, w2) \<Rightarrow>
                  (case U_pepper env blob w2 of
                     (peppered, w3) \<Rightarrow> (self1\<lparr>MatchReport.encrypted := peppered\<rparr>, w3))))"

text \<open>
  \<^verbatim>\<open>get_match\<close>: one \<^verbatim>\<open>try\<close> block around both steps, \<^verbatim>\<open>except CryptoError: pass\<close>,
  then \<^verbatim>\<open>return decrypted_report\<close> (\<open>None\<close> when the block raised \<^verbatim>\<open>CryptoError\<close>).
  Any other exception leaves the method. The method assigns no field, so the object comes
  back as it was. (The argument \<^verbatim>\<open>identifier\<close> and the local \<^verbatim>\<open>decrypted_report\<close> carry a
  prime: the model has constants of these names.)
\<close>

definition get_match ::
  "'w env \<Rightarrow> MatchReport \<Rightarrow> str \<Rightarrow> MatchReport \<times> (error + str option)" where
  "get_match env self identifier' =
     (case (case U_unpepper env (MatchReport.encrypted self) of
              Inl e \<Rightarrow> Inl e
            | Inr unpeppered \<Rightarrow>
                U_decrypt_report env (MatchReport.salt self) identifier' unpeppered) of
        Inl CryptoError \<Rightarrow> (self, Inr None)
      | Inl e \<Rightarrow> (self, Inl e)
      | Inr decrypted_report' \<Rightarrow> (self, Inr (Some decrypted_report')))"

section \<open>What the libraries promise\<close>

text \<open>
  The keys the module builds boxes with have the key size: \<^verbatim>\<open>settings.PEPPER\<close> is "a 32
  byte value" (docstring of \<^verbatim>\<open>_pepper\<close>), and the secret key "is stretched to 32 bytes"
  by \<^verbatim>\<open>pbkdf2\<close> (docstring of \<^verbatim>\<open>_encrypt_report\<close>).
\<close>

definition config_ok :: "'w env \<Rightarrow> bool" where
  "config_ok env \<longleftrightarrow>
     length (PEPPER env) = KEY_SIZE \<and>
     (\<forall>key salt. length (pbkdf2 env key salt (KEY_ITERATIONS env)) = KEY_SIZE)"

text \<open>Decrypting, under the same key, what the box encrypted gives the message back.\<close>

definition secretbox_inverse :: "'w env \<Rightarrow> bool" where
  "secretbox_inverse env \<longleftrightarrow>
     (\<forall>k m n. length k = KEY_SIZE \<longrightarrow> length n = NONCE_SIZE env \<longrightarrow>
        SecretBox_decrypt env k (SecretBox_encrypt env k m n) = Some m)"

text \<open>
  Modelled from the spec: the layout of what PyNaCl's \<^verbatim>\<open>SecretBox.encrypt\<close> returns,
  missing from the sources. Sections 3 and 6: "byte layout of the ciphertext blob is
  nonce (fixed width) || authenticated_ciphertext".
\<close>

definition secretbox_layout :: "'w env \<Rightarrow> bool" where
  "secretbox_layout env \<longleftrightarrow>
     (\<forall>k m n. length n = NONCE_SIZE env \<longrightarrow>
        take (NONCE_SIZE env) (SecretBox_encrypt env k m n) = n)"

text \<open>Bit \<open>i\<close> of a byte string flipped (bit \<open>i mod 8\<close> of byte \<open>i div 8\<close>).\<close>

definition bit_flip :: "nat \<Rightarrow> bytes \<Rightarrow> bytes" where
  "bit_flip i bs = bs[i div 8 := (bs ! (i div 8)) XOR push_bit (i mod 8) 1]"

text \<open>
  Modelled from the spec: the authentication of PyNaCl's secret box, missing from the
  sources. Section 4.2: "Decryption must be authenticated: any bit-flip in ciphertext or
  nonce, or use of the wrong key, must deterministically fail closed
  (\<^verbatim>\<open>DecryptionFailed\<close>), never return corrupted plaintext." This is the cipher of the
  spec, an ideal one: a cipher with a tag of fixed width rejects a wrong key or a changed
  blob up to the probability of a forged tag only.
\<close>

definition secretbox_authenticated :: "'w env \<Rightarrow> bool" where
  "secretbox_authenticated env \<longleftrightarrow>
     (\<forall>k k' m n. length k = KEY_SIZE \<longrightarrow> length k' = KEY_SIZE \<longrightarrow>
        length n = NONCE_SIZE env \<longrightarrow> k' \<noteq> k \<longrightarrow>
        SecretBox_decrypt env k' (SecretBox_encrypt env k m n) = None) \<and>
     (\<forall>k m n i. length k = KEY_SIZE \<longrightarrow> length n = NONCE_SIZE env \<longrightarrow>
        i < 8 * length (SecretBox_encrypt env k m n) \<longrightarrow>
        SecretBox_decrypt env k (bit_flip i (SecretBox_encrypt env k m n)) = None)"

section \<open>An instance to run the model on\<close>

text \<open>
  A small executable instance of the library record, on which the promises above are
  proved and the model is run at concrete inputs. Its box keeps nothing secret (the nonce,
  then key, nonce, a checksum and the message, one after the other); only what the
  promises say matters here. The world is a counter.
\<close>

definition xor_sum :: "bytes \<Rightarrow> byte" where
  "xor_sum m = foldr (XOR) m 0"

definition demo_secretbox :: "bytes \<Rightarrow> bytes \<Rightarrow> bytes \<Rightarrow> bytes" where
  "demo_secretbox m n k = k @ n @ xor_sum m # m"

definition demo_secretbox_open :: "bytes \<Rightarrow> bytes \<Rightarrow> bytes \<Rightarrow> bytes option" where
  "demo_secretbox_open c n k =
     (let m = drop (length k + length n + 1) c
      in if c = demo_secretbox m n k then Some m else None)"

definition demo_encrypt :: "bytes \<Rightarrow> bytes \<Rightarrow> bytes \<Rightarrow> bytes" where
  "demo_encrypt k m n = n @ demo_secretbox m n k"

definition demo_decrypt :: "bytes \<Rightarrow> bytes \<Rightarrow> bytes option" where
  "demo_decrypt k c =
     (if length c < 24 then None else demo_secretbox_open (drop 24 c) (take 24 c) k)"

definition demo_pbkdf2 :: "str \<Rightarrow> str \<Rightarrow> nat \<Rightarrow> bytes" where
  "demo_pbkdf2 password salt' iterations =
     take KEY_SIZE (utf8_encode password @ utf8_encode salt' @ replicate KEY_SIZE 0)"

definition demo_env :: "nat env" where
  "demo_env =
     \<lparr>KEY_ITERATIONS = 1,
      PEPPER = replicate KEY_SIZE 0x70,
      pbkdf2 = demo_pbkdf2,
      NONCE_SIZE = 24,
      SecretBox_encrypt = demo_encrypt,
      SecretBox_decrypt = demo_decrypt,
      os_urandom = (\<lambda>w. (of_nat w, Suc w)),
      get_random_string = (\<lambda>w. (replicate 12 (scalar_of (97 + w mod 26)), Suc w)),
      timezone_now = (\<lambda>w. 1000 + w)\<rparr>"

definition new_report :: Report where
  "new_report =
     \<lparr>Report.pk = 1, encrypted = [], owner = 7, added = 0, autosaved = False,
      last_edited = None, salt = [], submitted_to_school = None, contact_phone = None,
      contact_voicemail = None, contact_email = None, contact_notes = None,
      contact_name = None, match_found = False\<rparr>"

definition new_match_report :: "nat \<Rightarrow> MatchReport" where
  "new_match_report k =
     \<lparr>MatchReport.pk = k, report = 1, contact_email = str_of ''a@b.org'', identifier = None,
      added = 0, seen = False, encrypted = [], salt = []\<rparr>"

section \<open>Scanning candidates\<close>

text \<open>
  Modelled from the spec: the scan of the Matching Engine is missing from the sources.
  Section 6: \<^verbatim>\<open>scan_matches(identifier, candidates) -> set of plaintext matches\<close>; section
  4.5: a trial decryption that succeeds is a match, one that fails is not, and the scan
  goes on over all candidates. The trial decryption is \<open>get_match\<close>; an error that leaves
  \<open>get_match\<close> leaves the scan.
\<close>

fun scan_matches :: "'w env \<Rightarrow> str \<Rightarrow> MatchReport list \<Rightarrow> error + str set" where
  "scan_matches env identifier' [] = Inr {}"
| "scan_matches env identifier' (candidate # candidates) =
     (case snd (get_match env candidate identifier') of
        Inl e \<Rightarrow> Inl e
      | Inr found \<Rightarrow>
          (case scan_matches env identifier' candidates of
             Inl e \<Rightarrow> Inl e
           | Inr matches \<Rightarrow>
               Inr ((case found of None \<Rightarrow> {} | Some p \<Rightarrow> {p}) \<union> matches)))"

section \<open>Lemmas\<close>

subsection \<open>UTF-8\<close>

lemma split3: "(c::nat) div 0x1000 * 0x1000 + c div 0x40 mod 0x40 * 0x40 + c mod 0x40 = c"
proof -
  have "c mod 0x1000 = 0x40 * (c div 0x40 mod 0x40) + c mod 0x40"
    using mod_mult2_eq [of c "0x40" "0x40"] by simp
  moreover have "c = c div 0x1000 * 0x1000 + c mod 0x1000"
    by simp
  ultimately show ?thesis by linarith
qed

lemma split4:
  "(c::nat) div 0x40000 * 0x40000 + c div 0x1000 mod 0x40 * 0x1000
     + c div 0x40 mod 0x40 * 0x40 + c mod 0x40 = c"
proof -
  have a: "c mod 0x40000 = 0x1000 * (c div 0x1000 mod 0x40) + c mod 0x1000"
    using mod_mult2_eq [of c "0x1000" "0x40"] by simp
  have b: "c mod 0x1000 = 0x40 * (c div 0x40 mod 0x40) + c mod 0x40"
    using mod_mult2_eq [of c "0x40" "0x40"] by simp
  have "c = c div 0x40000 * 0x40000 + c mod 0x40000"
    by simp
  with a b show ?thesis by linarith
qed

lemma decode_cp_1:
  assumes "c < 0x80"
  shows "decode_cp c rest = Some (c, 0)"
  using assms by (simp add: decode_cp_def)

lemma decode_cp_2:
  assumes "0x80 \<le> c" "c < 0x800"
  shows "decode_cp (0xC0 + c div 0x40) ((0x80 + c mod 0x40) # rest) = Some (c, 1)"
proof -
  have h: "c div 0x40 < 0x20" using assms(2) by simp
  have m: "c mod 0x40 < 0x40" by simp
  have e: "c div 0x40 * 0x40 + c mod 0x40 = c" by simp
  show ?thesis
    unfolding decode_cp_def is_cont_def Let_def
    using h m assms by (simp add: e)
qed

lemma decode_cp_3:
  assumes "is_scalar c" "0x800 \<le> c" "c < 0x10000"
  shows "decode_cp (0xE0 + c div 0x1000)
           ((0x80 + c div 0x40 mod 0x40) # (0x80 + c mod 0x40) # rest) = Some (c, 2)"
proof -
  have h: "c div 0x1000 < 0x10" using assms(3) by simp
  have m1: "c div 0x40 mod 0x40 < 0x40" and m2: "c mod 0x40 < 0x40" by simp_all
  show ?thesis
    unfolding decode_cp_def is_cont_def Let_def
    using h m1 m2 assms by (simp add: split3)
qed

lemma decode_cp_4:
  assumes "is_scalar c" "0x10000 \<le> c"
  shows "decode_cp (0xF0 + c div 0x40000)
           ((0x80 + c div 0x1000 mod 0x40) # (0x80 + c div 0x40 mod 0x40)
              # (0x80 + c mod 0x40) # rest) = Some (c, 3)"
proof -
  have "c < 0x110000" using assms(1) by (simp add: is_scalar_def)
  then have h: "c div 0x40000 < 8" by simp
  have m1: "c div 0x1000 mod 0x40 < 0x40" and m2: "c div 0x40 mod 0x40 < 0x40"
    and m3: "c mod 0x40 < 0x40" by simp_all
  show ?thesis
    unfolding decode_cp_def is_cont_def Let_def
    using h m1 m2 m3 assms by (simp add: split4)
qed

lemma decode_cps_encode_cp:
  assumes "is_scalar c"
  shows "decode_cps (encode_cp c @ rest) = map_option ((#) c) (decode_cps rest)"
proof -
  consider "c < 0x80" | "0x80 \<le> c" "c < 0x800" | "0x800 \<le> c" "c < 0x10000" | "0x10000 \<le> c"
    by linarith
  then show ?thesis
  proof cases
    case 1
    then show ?thesis by (simp add: encode_cp_def decode_cp_1)
  next
    case 2
    then show ?thesis by (simp add: encode_cp_def decode_cp_2)
  next
    case 3
    with assms show ?thesis by (simp add: encode_cp_def decode_cp_3)
  next
    case 4
    with assms show ?thesis by (simp add: encode_cp_def decode_cp_4)
  qed
qed

lemma decode_cps_concat:
  assumes "\<forall>c \<in> set cs. is_scalar c"
  shows "decode_cps (concat (map encode_cp cs)) = Some cs"
  using assms by (induction cs) (simp_all add: decode_cps_encode_cp)

lemma encode_cp_byte:
  assumes "is_scalar c" "b \<in> set (encode_cp c)"
  shows "b < 256"
proof -
  have c: "c < 0x110000" using assms(1) by (simp add: is_scalar_def)
  then have h: "c div 0x40000 < 8" by simp
  have m1: "c div 0x1000 mod 0x40 < 0x40" and m2: "c div 0x40 mod 0x40 < 0x40"
    and m3: "c mod 0x40 < 0x40" by simp_all
  have d2: "c < 0x800 \<Longrightarrow> c div 0x40 < 0x20" and d3: "c < 0x10000 \<Longrightarrow> c div 0x1000 < 0x10"
    by simp_all
  show ?thesis
    using assms(2) h m1 m2 m3 d2 d3
    by (auto simp: encode_cp_def split: if_splits)
qed

lemma unat_of_nat_byte: "n < 256 \<Longrightarrow> unat (of_nat n :: byte) = n"
  by (simp add: unat_of_nat)

lemma map_unat_of_nat:
  assumes "\<forall>n \<in> set ns. n < 256"
  shows "map unat (map of_nat ns :: bytes) = ns"
  using assms by (induction ns) (simp_all add: unat_of_nat_byte)

lemma is_scalar_code_point: "is_scalar (code_point c)"
  by transfer simp

lemma scalar_of_code_point: "scalar_of (code_point c) = c"
  by transfer simp

lemma code_point_scalar_of: "is_scalar n \<Longrightarrow> code_point (scalar_of n) = n"
  by transfer simp

lemma utf8_roundtrip: "utf8_decode (utf8_encode s) = Inr s"
proof -
  let ?cs = "map code_point s"
  have sc: "\<forall>c \<in> set ?cs. is_scalar c"
    by (simp add: is_scalar_code_point)
  have "concat (map (\<lambda>c. encode_cp (code_point c)) s) = concat (map encode_cp ?cs)"
    by (simp add: comp_def)
  moreover have "\<forall>n \<in> set (concat (map encode_cp ?cs)). n < 256"
    using sc encode_cp_byte by auto
  ultimately have "map unat (utf8_encode s) = concat (map encode_cp ?cs)"
    unfolding utf8_encode_def using map_unat_of_nat [of "concat (map encode_cp ?cs)"] by simp
  then have "decode_cps (map unat (utf8_encode s)) = Some ?cs"
    using decode_cps_concat [OF sc] by simp
  then show ?thesis
    by (simp add: utf8_decode_def scalar_of_code_point comp_def)
qed

lemma utf8_decode_invalid: "utf8_decode [0xFF] = Inl UnicodeDecodeError"
  by (simp add: utf8_decode_def decode_cp_def)

subsection \<open>Random bytes\<close>

lemma utils_random_length: "length (fst (utils_random env n w)) = n"
proof (induction n arbitrary: w)
  case 0
  show ?case by simp
next
  case (Suc n)
  obtain b w1 where a: "os_urandom env w = (b, w1)"
    by (cases "os_urandom env w")
  obtain bs w2 where b: "utils_random env n w1 = (bs, w2)"
    by (cases "utils_random env n w1")
  from Suc [of w1] b have "length bs = n" by simp
  with a b show ?case by simp
qed

subsection \<open>Flipping a bit\<close>

lemma push_bit_1_byte_nonzero:
  assumes "j < 8"
  shows "push_bit j (1::byte) \<noteq> 0"
proof -
  from assms consider "j = 0" | "j = 1" | "j = 2" | "j = 3" | "j = 4" | "j = 5" | "j = 6" | "j = 7"
    by linarith
  then show ?thesis by cases simp_all
qed

lemma xor_mask_neq:
  assumes "j < 8"
  shows "(x::byte) XOR push_bit j 1 \<noteq> x"
proof
  assume "x XOR push_bit j 1 = x"
  then have "x XOR (x XOR push_bit j 1) = x XOR x" by simp
  then have "push_bit j (1::byte) = 0" by (simp flip: xor.assoc)
  with push_bit_1_byte_nonzero [OF assms] show False by simp
qed

lemma length_bit_flip: "length (bit_flip i bs) = length bs"
  by (simp add: bit_flip_def)

lemma bit_flip_neq:
  assumes "i < 8 * length bs"
  shows "bit_flip i bs \<noteq> bs"
proof
  assume eq: "bit_flip i bs = bs"
  have j: "i div 8 < length bs" using assms by simp
  have "bit_flip i bs ! (i div 8) = bs ! (i div 8) XOR push_bit (i mod 8) 1"
    using j by (simp add: bit_flip_def)
  with eq have "bs ! (i div 8) XOR push_bit (i mod 8) 1 = bs ! (i div 8)" by simp
  then show False using xor_mask_neq [of "i mod 8"] by simp
qed

lemma bit_flip_append:
  "bit_flip i (xs @ ys) =
     (if i < 8 * length xs then bit_flip i xs @ ys else xs @ bit_flip (i - 8 * length xs) ys)"
proof (cases "i < 8 * length xs")
  case True
  then have "i div 8 < length xs" by simp
  then show ?thesis using True by (simp add: bit_flip_def list_update_append nth_append)
next
  case False
  then have ge: "8 * length xs \<le> i" by simp
  then obtain r where r: "i = 8 * length xs + r"
    using le_Suc_ex by blast
  have d: "(i - 8 * length xs) div 8 = i div 8 - length xs"
    by (simp add: r)
  have m: "(i - 8 * length xs) mod 8 = i mod 8"
    by (simp add: r)
  have nl: "\<not> i div 8 < length xs" using ge by simp
  show ?thesis using False nl by (simp add: bit_flip_def list_update_append nth_append d m)
qed

subsection \<open>The secret box\<close>

lemma SecretBox_roundtrip:
  assumes "secretbox_inverse env" "length k = KEY_SIZE" "length n = NONCE_SIZE env"
  shows "SecretBox_decrypt env k (SecretBox_encrypt env k m n) = Some m"
  using assms unfolding secretbox_inverse_def by blast

lemma SecretBox_wrong_key:
  assumes "secretbox_authenticated env" "length k = KEY_SIZE" "length k' = KEY_SIZE"
    "length n = NONCE_SIZE env" "k' \<noteq> k"
  shows "SecretBox_decrypt env k' (SecretBox_encrypt env k m n) = None"
  using assms unfolding secretbox_authenticated_def by blast

lemma SecretBox_bit_flip:
  assumes "secretbox_authenticated env" "length k = KEY_SIZE" "length n = NONCE_SIZE env"
    "i < 8 * length (SecretBox_encrypt env k m n)"
  shows "SecretBox_decrypt env k (bit_flip i (SecretBox_encrypt env k m n)) = None"
  using assms unfolding secretbox_authenticated_def by blast

subsection \<open>The module functions, unfolded\<close>

lemma U_encrypt_report_eq:
  "U_encrypt_report env s key P w =
     (SecretBox_encrypt env (pbkdf2 env key s (KEY_ITERATIONS env)) (utf8_encode P)
        (fst (utils_random env (NONCE_SIZE env) w)),
      snd (utils_random env (NONCE_SIZE env) w))"
  by (simp add: U_encrypt_report_def Let_def split: prod.splits)

lemma U_pepper_eq:
  "U_pepper env B w =
     (SecretBox_encrypt env (PEPPER env) B (fst (utils_random env (NONCE_SIZE env) w)),
      snd (utils_random env (NONCE_SIZE env) w))"
  by (simp add: U_pepper_def Let_def split: prod.splits)

lemma U_decrypt_encrypt:
  assumes "config_ok env" "secretbox_inverse env"
  shows "U_decrypt_report env s key (fst (U_encrypt_report env s key P w)) = Inr P"
proof -
  have k: "length (pbkdf2 env key s (KEY_ITERATIONS env)) = KEY_SIZE"
    using assms(1) by (simp add: config_ok_def)
  have "SecretBox_decrypt env (pbkdf2 env key s (KEY_ITERATIONS env))
          (fst (U_encrypt_report env s key P w)) = Some (utf8_encode P)"
    unfolding U_encrypt_report_eq fst_conv
    by (rule SecretBox_roundtrip [OF assms(2) k utils_random_length])
  then show ?thesis
    by (simp add: U_decrypt_report_def Let_def utf8_roundtrip)
qed

lemma U_unpepper_pepper:
  assumes "config_ok env" "secretbox_inverse env"
  shows "U_unpepper env (fst (U_pepper env B w)) = Inr B"
proof -
  have k: "length (PEPPER env) = KEY_SIZE"
    using assms(1) by (simp add: config_ok_def)
  have "SecretBox_decrypt env (PEPPER env) (fst (U_pepper env B w)) = Some B"
    unfolding U_pepper_eq fst_conv
    by (rule SecretBox_roundtrip [OF assms(2) k utils_random_length])
  then show ?thesis
    by (simp add: U_unpepper_def Let_def)
qed

lemma U_decrypt_report_CryptoError:
  assumes "SecretBox_decrypt env (pbkdf2 env key s (KEY_ITERATIONS env)) b = None"
  shows "U_decrypt_report env s key b = Inl CryptoError"
  using assms by (simp add: U_decrypt_report_def Let_def)

lemma U_unpepper_error:
  assumes "U_unpepper env b = Inl e"
  shows "e = CryptoError"
  using assms by (auto simp: U_unpepper_def Let_def split: option.splits)

lemma U_decrypt_report_other_key:
  assumes "config_ok env" "secretbox_authenticated env"
    and "pbkdf2 env key' s (KEY_ITERATIONS env) \<noteq> pbkdf2 env key s (KEY_ITERATIONS env)"
  shows "U_decrypt_report env s key' (fst (U_encrypt_report env s key P w)) = Inl CryptoError"
proof -
  have k: "\<And>x. length (pbkdf2 env x s (KEY_ITERATIONS env)) = KEY_SIZE"
    using assms(1) by (simp add: config_ok_def)
  have "SecretBox_decrypt env (pbkdf2 env key' s (KEY_ITERATIONS env))
          (fst (U_encrypt_report env s key P w)) = None"
    unfolding U_encrypt_report_eq fst_conv
    by (rule SecretBox_wrong_key [OF assms(2) k k utils_random_length assms(3)])
  then show ?thesis by (rule U_decrypt_report_CryptoError)
qed





lemma U_unpepper_bit_flip:
  assumes "config_ok env" "secretbox_authenticated env"
    and "i < 8 * length (fst (U_pepper env B w))"
  shows "U_unpepper env (bit_flip i (fst (U_pepper env B w))) = Inl CryptoError"
proof -
  have p: "length (PEPPER env) = KEY_SIZE"
    using assms(1) by (simp add: config_ok_def)
  have "SecretBox_decrypt env (PEPPER env) (bit_flip i (fst (U_pepper env B w))) = None"
    using assms(3) unfolding U_pepper_eq fst_conv
    by (intro SecretBox_bit_flip [OF assms(2) p utils_random_length])
  then show ?thesis by (simp add: U_unpepper_def)
qed

subsection \<open>Report.encrypt_report, field by field\<close>

lemma encrypt_report_salt:
  "Report.salt (fst (encrypt_report env self P key edit autosave w)) =
     (if Report.salt self = [] then fst (get_random_string env w) else Report.salt self)"
  by (simp add: encrypt_report_def Let_def split: prod.splits)

lemma encrypt_report_encrypted:
  "Report.encrypted (fst (encrypt_report env self P key edit autosave w)) =
     fst (U_encrypt_report env
            (if Report.salt self = [] then fst (get_random_string env w) else Report.salt self)
            key P
            (if Report.salt self = [] then snd (get_random_string env w) else w))"
  by (simp add: encrypt_report_def Let_def split: prod.splits)

lemma encrypt_report_last_edited:
  "last_edited (fst (encrypt_report env self P key edit autosave w)) =
     (if Report.salt self \<noteq> [] \<and> edit then Some (timezone_now env w) else last_edited self)"
  by (simp add: encrypt_report_def Let_def split: prod.splits)

lemma encrypt_report_autosaved:
  "autosaved (fst (encrypt_report env self P key edit autosave w)) = autosave"
  by (simp add: encrypt_report_def Let_def split: prod.splits)

subsection \<open>MatchReport.encrypt_match_report, field by field\<close>

lemma encrypt_match_report_salt:
  "MatchReport.salt (fst (encrypt_match_report env self P key w)) = fst (get_random_string env w)"
  by (simp add: encrypt_match_report_def Let_def split: prod.splits)

lemma encrypt_match_report_encrypted:
  "MatchReport.encrypted (fst (encrypt_match_report env self P key w)) =
     fst (U_pepper env
            (fst (U_encrypt_report env (fst (get_random_string env w)) key P
                    (snd (get_random_string env w))))
            (snd (U_encrypt_report env (fst (get_random_string env w)) key P
                    (snd (get_random_string env w)))))"
  by (simp add: encrypt_match_report_def Let_def split: prod.splits)

lemma encrypt_match_report_seen:
  "MatchReport.seen (fst (encrypt_match_report env self P key w)) = MatchReport.seen self"
  by (simp add: encrypt_match_report_def Let_def split: prod.splits)

subsection \<open>MatchReport.get_match\<close>

lemma get_match_self: "fst (get_match env self ident) = self"
  by (simp add: get_match_def split: sum.splits error.splits)

lemma get_match_unpepper_fails:
  assumes "U_unpepper env (MatchReport.encrypted self) = Inl CryptoError"
  shows "snd (get_match env self ident) = Inr None"
  using assms by (simp add: get_match_def)

lemma utf8_decode_error:
  assumes "utf8_decode b = Inl e"
  shows "e = UnicodeDecodeError"
  using assms by (auto simp: utf8_decode_def split: option.splits)

lemma get_match_cases:
  "snd (get_match env self ident) =
     (case SecretBox_decrypt env (PEPPER env) (MatchReport.encrypted self) of
        None \<Rightarrow> Inr None
      | Some u \<Rightarrow>
          (case SecretBox_decrypt env
                  (pbkdf2 env ident (MatchReport.salt self) (KEY_ITERATIONS env)) u of
             None \<Rightarrow> Inr None
           | Some d \<Rightarrow>
               (case utf8_decode d of
                  Inl e \<Rightarrow> Inl UnicodeDecodeError
                | Inr t \<Rightarrow> Inr (Some t))))"
  by (auto simp: get_match_def U_unpepper_def U_decrypt_report_def Let_def
      split: option.splits sum.splits error.splits dest: utf8_decode_error)

lemma get_match_found:
  assumes "config_ok env" "secretbox_inverse env"
  shows "snd (get_match env (fst (encrypt_match_report env self P key w)) key) = Inr (Some P)"
proof -
  let ?m = "fst (encrypt_match_report env self P key w)"
  let ?s = "fst (get_random_string env w)"
  let ?e = "U_encrypt_report env ?s key P (snd (get_random_string env w))"
  have "U_unpepper env (MatchReport.encrypted ?m) = Inr (fst ?e)"
    unfolding encrypt_match_report_encrypted by (rule U_unpepper_pepper [OF assms])
  moreover have "U_decrypt_report env (MatchReport.salt ?m) key (fst ?e) = Inr P"
    unfolding encrypt_match_report_salt by (rule U_decrypt_encrypt [OF assms])
  ultimately show ?thesis by (simp add: get_match_def)
qed

lemma get_match_other_key:
  assumes "config_ok env" "secretbox_inverse env" "secretbox_authenticated env"
    and "pbkdf2 env key2 (MatchReport.salt (fst (encrypt_match_report env self P key w)))
           (KEY_ITERATIONS env)
         \<noteq> pbkdf2 env key (MatchReport.salt (fst (encrypt_match_report env self P key w)))
           (KEY_ITERATIONS env)"
  shows "snd (get_match env (fst (encrypt_match_report env self P key w)) key2) = Inr None"
proof -
  let ?m = "fst (encrypt_match_report env self P key w)"
  let ?s = "fst (get_random_string env w)"
  let ?e = "U_encrypt_report env ?s key P (snd (get_random_string env w))"
  have s: "MatchReport.salt ?m = ?s" by (rule encrypt_match_report_salt)
  have k: "\<And>x. length (pbkdf2 env x ?s (KEY_ITERATIONS env)) = KEY_SIZE"
    using assms(1) by (simp add: config_ok_def)
  have "U_unpepper env (MatchReport.encrypted ?m) = Inr (fst ?e)"
    unfolding encrypt_match_report_encrypted by (rule U_unpepper_pepper [OF assms(1,2)])
  moreover have "SecretBox_decrypt env (pbkdf2 env key2 ?s (KEY_ITERATIONS env)) (fst ?e)
                 = None"
    unfolding U_encrypt_report_eq fst_conv
    using assms(4) unfolding s
    by (intro SecretBox_wrong_key [OF assms(3) k k utils_random_length])
  ultimately show ?thesis
    by (simp add: get_match_def s U_decrypt_report_CryptoError)
qed

subsection \<open>The instance keeps the promises\<close>

lemma demo_env_fields:
  "KEY_ITERATIONS demo_env = 1"
  "PEPPER demo_env = replicate KEY_SIZE 0x70"
  "pbkdf2 demo_env = demo_pbkdf2"
  "NONCE_SIZE demo_env = 24"
  "SecretBox_encrypt demo_env = demo_encrypt"
  "SecretBox_decrypt demo_env = demo_decrypt"
  "os_urandom demo_env = (\<lambda>w. (of_nat w, Suc w))"
  "get_random_string demo_env = (\<lambda>w. (replicate 12 (scalar_of (97 + w mod 26)), Suc w))"
  "timezone_now demo_env = (\<lambda>w. 1000 + w)"
  by (simp_all add: demo_env_def)

lemma demo_config_ok: "config_ok demo_env"
  by (auto simp: config_ok_def demo_env_fields demo_pbkdf2_def KEY_SIZE_def min_def)

lemma demo_open_seal: "demo_secretbox_open (demo_secretbox m n k) n k = Some m"
  by (simp add: demo_secretbox_open_def demo_secretbox_def Let_def)

lemma demo_secretbox_inverse: "secretbox_inverse demo_env"
  by (simp add: secretbox_inverse_def demo_env_fields demo_encrypt_def demo_decrypt_def
      demo_open_seal)

lemma demo_secretbox_layout: "secretbox_layout demo_env"
  by (simp add: secretbox_layout_def demo_env_fields demo_encrypt_def)

lemma xor_sum_update:
  assumes "j < length m"
  shows "xor_sum (m[j := m ! j XOR x]) = xor_sum m XOR x"
  using assms
proof (induction m arbitrary: j)
  case Nil
  then show ?case by simp
next
  case (Cons a m)
  show ?case
  proof (cases j)
    case 0
    then show ?thesis by (simp add: xor_sum_def xor.assoc xor.commute xor.left_commute)
  next
    case (Suc j')
    with Cons.prems have "j' < length m" by simp
    from Cons.IH [OF this] Suc show ?thesis
      by (simp add: xor_sum_def xor.assoc)
  qed
qed

lemma demo_wrong_key:
  assumes "length k' = length k" "k' \<noteq> k"
  shows "demo_secretbox_open (demo_secretbox m n k) n k' = None"
  using assms by (simp add: demo_secretbox_open_def demo_secretbox_def Let_def)

lemma demo_flip_nonce:
  assumes "i < 8 * length n"
  shows "demo_secretbox_open (demo_secretbox m n k) (bit_flip i n) k = None"
  using bit_flip_neq [OF assms]
  by (auto simp: demo_secretbox_open_def demo_secretbox_def Let_def length_bit_flip)

lemma demo_flip_box:
  assumes "i < 8 * length (demo_secretbox m n k)"
  shows "demo_secretbox_open (bit_flip i (demo_secretbox m n k)) n k = None"
proof -
  let ?p = "k @ n"
  let ?x = "push_bit (i mod 8) (1::byte)"
  let ?j = "i div 8"
  let ?c = "demo_secretbox m n k"
  let ?c' = "bit_flip i ?c"
  let ?m' = "drop (length k + length n + 1) ?c'"
  have c: "?c = ?p @ xor_sum m # m" by (simp add: demo_secretbox_def)
  have j: "?j < length ?c" using assms by simp
  have ne: "\<And>y::byte. y XOR ?x \<noteq> y" by (rule xor_mask_neq) simp
  have "?c' \<noteq> demo_secretbox ?m' n k"
  proof
    assume eq: "?c' = demo_secretbox ?m' n k"
    then have eq': "?c' = ?p @ xor_sum ?m' # ?m'" by (simp add: demo_secretbox_def)
    consider "?j < length ?p" | "?j = length ?p" | "length ?p < ?j" by linarith
    then show False
    proof cases
      case 1
      have a: "?c ! ?j = ?p ! ?j"
        unfolding c using 1 by (rule nth_append_left)
      have b: "?c' ! ?j = ?c ! ?j XOR ?x"
        using j by (simp add: bit_flip_def)
      have "?c' ! ?j = ?p ! ?j"
        using 1 by (subst eq') (rule nth_append_left)
      with a b have "?p ! ?j XOR ?x = ?p ! ?j" by metis
      with ne show False by blast
    next
      case 2
      then have m': "?m' = m" by (simp add: bit_flip_def c)
      have a: "?c ! ?j = xor_sum m"
        unfolding c 2 by (rule nth_append_length)
      have b: "?c' ! ?j = ?c ! ?j XOR ?x"
        using j by (simp add: bit_flip_def)
      have "?c' ! ?j = xor_sum ?m'"
        by (subst eq', unfold 2) (rule nth_append_length)
      with a b m' have "xor_sum m XOR ?x = xor_sum m" by metis
      with ne show False by blast
    next
      case 3
      define d where "d = ?j - Suc (length ?p)"
      have jd: "?j = length ?p + Suc d" using 3 by (simp add: d_def)
      have dl: "d < length m" using j jd by (simp add: c)
      have cu: "?c' = ?p @ xor_sum m # m[d := m ! d XOR ?x]"
        by (simp add: bit_flip_def c jd list_update_append nth_append)
      then have m': "?m' = m[d := m ! d XOR ?x]" by simp
      from eq' cu have "xor_sum ?m' = xor_sum m" by simp
      then have "xor_sum m XOR ?x = xor_sum m"
        unfolding m' by (simp only: xor_sum_update [OF dl])
      with ne show False by blast
    qed
  qed
  then show ?thesis by (simp add: demo_secretbox_open_def Let_def)
qed

lemma demo_decrypt_wrong_key:
  assumes "length k' = length k" "k' \<noteq> k" "length n = 24"
  shows "demo_decrypt k' (demo_encrypt k m n) = None"
  using assms by (simp add: demo_decrypt_def demo_encrypt_def demo_wrong_key)

lemma demo_decrypt_bit_flip:
  assumes "length n = 24" "i < 8 * length (demo_encrypt k m n)"
  shows "demo_decrypt k (bit_flip i (demo_encrypt k m n)) = None"
proof (cases "i < 8 * length n")
  case True
  then show ?thesis
    using assms(1)
    by (simp add: demo_decrypt_def demo_encrypt_def bit_flip_append length_bit_flip
        demo_flip_nonce)
next
  case False
  then have "i - 8 * length n < 8 * length (demo_secretbox m n k)"
    using assms(2) by (simp add: demo_encrypt_def)
  then show ?thesis
    using False assms(1)
    by (simp add: demo_decrypt_def demo_encrypt_def bit_flip_append length_bit_flip
        demo_flip_box)
qed

lemma demo_secretbox_authenticated: "secretbox_authenticated demo_env"
  unfolding secretbox_authenticated_def demo_env_fields
  by (intro conjI allI impI demo_decrypt_wrong_key demo_decrypt_bit_flip) simp_all

subsection \<open>Text literals\<close>

lemma is_scalar_of_char: "is_scalar (of_char c)"
proof -
  have "of_char c < (256::nat)" by (rule nat_of_char_less_256)
  then have "of_char c < (0x110000::nat)" and "\<not> (0xD800::nat) \<le> of_char c"
    by linarith+
  then show ?thesis unfolding is_scalar_def by blast
qed

lemma str_of_inject: "str_of s = str_of t \<longleftrightarrow> s = t"
proof -
  have "inj (\<lambda>c::char. scalar_of (of_char c))"
  proof (rule injI)
    fix a b :: char
    assume "scalar_of (of_char a) = scalar_of (of_char b)"
    then have "code_point (scalar_of (of_char a)) = code_point (scalar_of (of_char b))"
      by simp
    then have "(of_char a :: nat) = of_char b"
      by (simp add: code_point_scalar_of is_scalar_of_char)
    then show "a = b" by simp
  qed
  then show ?thesis unfolding str_of_def by (simp add: inj_map_eq_map)
qed

subsection \<open>Running the instance\<close>

lemma utf8_encode_Cons:
  "utf8_encode (c # s) = map of_nat (encode_cp (code_point c)) @ utf8_encode s"
  by (simp add: utf8_encode_def)

lemma demo_pbkdf2_hd:
  assumes "code_point c < 0x80"
  shows "demo_pbkdf2 (c # key) s it ! 0 = of_nat (code_point c)"
  using assms by (simp add: demo_pbkdf2_def utf8_encode_Cons encode_cp_def KEY_SIZE_def)

lemma demo_alice_bob:
  "demo_pbkdf2 (str_of ''alice123'') s it \<noteq> demo_pbkdf2 (str_of ''bob456'') s it"
proof
  assume eq: "demo_pbkdf2 (str_of ''alice123'') s it = demo_pbkdf2 (str_of ''bob456'') s it"
  have a: "demo_pbkdf2 (str_of ''alice123'') s it ! 0 = 97"
    by (simp add: str_of_def demo_pbkdf2_hd code_point_scalar_of is_scalar_def)
  have b: "demo_pbkdf2 (str_of ''bob456'') s it ! 0 = 98"
    by (simp add: str_of_def demo_pbkdf2_hd code_point_scalar_of is_scalar_def)
  from a b eq show False by simp
qed

lemma demo_encrypt_length: "length n \<le> length (demo_encrypt k m n)"
  by (simp add: demo_encrypt_def)

lemma demo_U_pepper_length:
  "24 \<le> length (fst (U_pepper demo_env B w))"
  using demo_encrypt_length [of "fst (utils_random demo_env 24 w)" "PEPPER demo_env" B]
  by (simp add: U_pepper_eq demo_env_fields utils_random_length)

lemma demo_U_encrypt_report_length:
  "24 \<le> length (fst (U_encrypt_report demo_env s key P w))"
  using demo_encrypt_length
          [of "fst (utils_random demo_env 24 w)" "pbkdf2 demo_env key s (KEY_ITERATIONS demo_env)"
              "utf8_encode P"]
  by (simp add: U_encrypt_report_eq demo_env_fields utils_random_length)

lemma str_of_Nil_iff: "str_of s = [] \<longleftrightarrow> s = []"
  by (simp add: str_of_def)

lemma demo_utils_random: "utils_random demo_env n w = (map of_nat [w..<w + n], w + n)"
proof (induction n arbitrary: w)
  case 0
  show ?case by simp
next
  case (Suc n)
  have "[w..<w + Suc n] = w # [Suc w..<Suc w + n]"
    by (simp add: upt_conv_Cons)
  then show ?case by (simp add: Suc demo_env_fields)
qed

lemma get_match_undecodable:
  assumes "config_ok env" "secretbox_inverse env"
    and "length n = NONCE_SIZE env" "length n' = NONCE_SIZE env"
    and "utf8_decode d = Inl UnicodeDecodeError"
    and "MatchReport.encrypted self =
           SecretBox_encrypt env (PEPPER env)
             (SecretBox_encrypt env (pbkdf2 env ident (MatchReport.salt self) (KEY_ITERATIONS env))
                d n) n'"
  shows "snd (get_match env self ident) = Inl UnicodeDecodeError"
proof -
  have k: "length (PEPPER env) = KEY_SIZE"
    "length (pbkdf2 env ident (MatchReport.salt self) (KEY_ITERATIONS env)) = KEY_SIZE"
    using assms(1) by (simp_all add: config_ok_def)
  show ?thesis
    unfolding get_match_cases assms(6)
    by (simp add: SecretBox_roundtrip [OF assms(2)] k assms(3,4,5))
qed

section \<open>The claims\<close>

text \<open>
  \<^bold>\<open>C1\<close> (round trip). For every salt, key and text \<open>P\<close>, \<open>U_decrypt_report\<close> with the same salt
  and key gives \<open>P\<close> back from the blob \<open>U_encrypt_report\<close> made, whatever nonce was drawn;
  so \<open>decrypted_report\<close> returns the text given to \<open>encrypt_report\<close> under the same key.
  The box is assumed to open what it sealed, and the keys to have the key size.
\<close>

theorem C1_roundtrip:
  assumes "config_ok env" and "secretbox_inverse env"
  shows "U_decrypt_report env s key (fst (U_encrypt_report env s key P w)) = Inr P \<and>
         decrypted_report env (fst (encrypt_report env self P key edit autosave w)) key = Inr P"
proof
  show "U_decrypt_report env s key (fst (U_encrypt_report env s key P w)) = Inr P"
    by (rule U_decrypt_encrypt [OF assms])
  show "decrypted_report env (fst (encrypt_report env self P key edit autosave w)) key = Inr P"
    unfolding decrypted_report_def encrypt_report_salt encrypt_report_encrypted
    by (rule U_decrypt_encrypt [OF assms])
qed

theorem C1_roundtrip_witness:
  "config_ok demo_env \<and> secretbox_inverse demo_env \<and>
   U_decrypt_report demo_env (str_of ''NaCl'') (str_of ''hunter2'')
     (fst (U_encrypt_report demo_env (str_of ''NaCl'') (str_of ''hunter2'')
             (str_of ''report text'') 0))
     = Inr (str_of ''report text'') \<and>
   decrypted_report demo_env
     (fst (encrypt_report demo_env new_report (str_of ''report text'') (str_of ''hunter2'')
             False False 0))
     (str_of ''hunter2'')
     = Inr (str_of ''report text'')"
  using C1_roundtrip [OF demo_config_ok demo_secretbox_inverse] demo_config_ok
    demo_secretbox_inverse
  by blast

text \<open>
  \<^bold>\<open>C2\<close> (matching). On a record that \<open>encrypt_match_report\<close> filled with text \<open>P\<close> under an
  identifier, \<open>get_match\<close> returns \<open>P\<close> for that identifier, and \<open>None\<close> for an identifier
  whose stretched key (under the record's salt) differs. Three records submitted under
  \<open>alice123\<close>, \<open>bob456\<close>, \<open>alice123\<close> with texts \<open>report-A\<close>, \<open>report-B\<close>, \<open>report-C\<close>,
  scanned with \<open>alice123\<close>, give exactly \<open>report-A\<close> and \<open>report-C\<close>, provided the two
  identifiers stretch to different keys under the second record's salt.
\<close>

theorem C2_matching:
  assumes "config_ok env" and "secretbox_inverse env" and "secretbox_authenticated env"
  shows
    "snd (get_match env (fst (encrypt_match_report env self P ident w)) ident) = Inr (Some P) \<and>
     (pbkdf2 env ident' (MatchReport.salt (fst (encrypt_match_report env self P ident w)))
        (KEY_ITERATIONS env)
      \<noteq> pbkdf2 env ident (MatchReport.salt (fst (encrypt_match_report env self P ident w)))
        (KEY_ITERATIONS env) \<longrightarrow>
      snd (get_match env (fst (encrypt_match_report env self P ident w)) ident') = Inr None) \<and>
     (let alice = str_of ''alice123''; bob = str_of ''bob456'';
          r1 = encrypt_match_report env ma (str_of ''report-A'') alice w;
          r2 = encrypt_match_report env mb (str_of ''report-B'') bob (snd r1);
          r3 = encrypt_match_report env mc (str_of ''report-C'') alice (snd r2)
      in pbkdf2 env alice (MatchReport.salt (fst r2)) (KEY_ITERATIONS env)
           \<noteq> pbkdf2 env bob (MatchReport.salt (fst r2)) (KEY_ITERATIONS env) \<longrightarrow>
         map (\<lambda>r. snd (get_match env r alice)) [fst r1, fst r2, fst r3]
           = [Inr (Some (str_of ''report-A'')), Inr None, Inr (Some (str_of ''report-C''))] \<and>
         scan_matches env alice [fst r1, fst r2, fst r3]
           = Inr {str_of ''report-A'', str_of ''report-C''} \<and>
         str_of ''report-B'' \<notin> {str_of ''report-A'', str_of ''report-C''})"
proof (intro conjI)
  show "snd (get_match env (fst (encrypt_match_report env self P ident w)) ident) = Inr (Some P)"
    by (rule get_match_found [OF assms(1,2)])
  show "pbkdf2 env ident' (MatchReport.salt (fst (encrypt_match_report env self P ident w)))
        (KEY_ITERATIONS env)
      \<noteq> pbkdf2 env ident (MatchReport.salt (fst (encrypt_match_report env self P ident w)))
        (KEY_ITERATIONS env) \<longrightarrow>
      snd (get_match env (fst (encrypt_match_report env self P ident w)) ident') = Inr None"
    using get_match_other_key [OF assms] by blast
  have ne: "str_of ''report-B'' \<noteq> str_of ''report-A''" "str_of ''report-B'' \<noteq> str_of ''report-C''"
    by (simp_all add: str_of_inject)
  show "let alice = str_of ''alice123''; bob = str_of ''bob456'';
          r1 = encrypt_match_report env ma (str_of ''report-A'') alice w;
          r2 = encrypt_match_report env mb (str_of ''report-B'') bob (snd r1);
          r3 = encrypt_match_report env mc (str_of ''report-C'') alice (snd r2)
      in pbkdf2 env alice (MatchReport.salt (fst r2)) (KEY_ITERATIONS env)
           \<noteq> pbkdf2 env bob (MatchReport.salt (fst r2)) (KEY_ITERATIONS env) \<longrightarrow>
         map (\<lambda>r. snd (get_match env r alice)) [fst r1, fst r2, fst r3]
           = [Inr (Some (str_of ''report-A'')), Inr None, Inr (Some (str_of ''report-C''))] \<and>
         scan_matches env alice [fst r1, fst r2, fst r3]
           = Inr {str_of ''report-A'', str_of ''report-C''} \<and>
         str_of ''report-B'' \<notin> {str_of ''report-A'', str_of ''report-C''}"
    unfolding Let_def
    using ne
    by (auto simp: get_match_found [OF assms(1,2)] get_match_other_key [OF assms])
qed

theorem C2_matching_witness:
  "config_ok demo_env \<and> secretbox_inverse demo_env \<and> secretbox_authenticated demo_env \<and>
   snd (get_match demo_env
          (fst (encrypt_match_report demo_env (new_match_report 1) (str_of ''report-A'')
                  (str_of ''alice123'') 0))
          (str_of ''alice123'')) = Inr (Some (str_of ''report-A'')) \<and>
   snd (get_match demo_env
          (fst (encrypt_match_report demo_env (new_match_report 1) (str_of ''report-A'')
                  (str_of ''alice123'') 0))
          (str_of ''bob456'')) = Inr None \<and>
   (let alice = str_of ''alice123''; bob = str_of ''bob456'';
        r1 = encrypt_match_report demo_env (new_match_report 1) (str_of ''report-A'') alice 0;
        r2 = encrypt_match_report demo_env (new_match_report 2) (str_of ''report-B'') bob (snd r1);
        r3 = encrypt_match_report demo_env (new_match_report 3) (str_of ''report-C'') alice (snd r2)
    in scan_matches demo_env alice [fst r1, fst r2, fst r3]
         = Inr {str_of ''report-A'', str_of ''report-C''})"
proof -
  note c2 = C2_matching [OF demo_config_ok demo_secretbox_inverse demo_secretbox_authenticated]
  have k: "\<And>s. pbkdf2 demo_env (str_of ''alice123'') s (KEY_ITERATIONS demo_env)
              \<noteq> pbkdf2 demo_env (str_of ''bob456'') s (KEY_ITERATIONS demo_env)"
    by (simp add: demo_env_fields demo_alice_bob)
  have k': "\<And>s. pbkdf2 demo_env (str_of ''bob456'') s (KEY_ITERATIONS demo_env)
              \<noteq> pbkdf2 demo_env (str_of ''alice123'') s (KEY_ITERATIONS demo_env)"
    using k by metis
  show ?thesis
    using c2 [where self = "new_match_report 1" and P = "str_of ''report-A''"
                and ident = "str_of ''alice123''" and w = 0 and ident' = "str_of ''bob456''"
                and ma = "new_match_report 1" and mb = "new_match_report 2"
                and mc = "new_match_report 3"]
      k k' demo_config_ok demo_secretbox_inverse demo_secretbox_authenticated
    unfolding Let_def by blast
qed

text \<open>
  \<^bold>\<open>C3\<close> (authenticated failure). With the authenticated box of the spec, decrypting a blob
  of \<open>U_encrypt_report\<close> with a key whose stretched key differs raises \<open>CryptoError\<close>, and so
  does decrypting, with the right key, the blob with any one bit flipped: no text is
  returned.
\<close>

theorem C3_authenticated:
  assumes "config_ok env" and "secretbox_authenticated env"
  shows
    "(pbkdf2 env K' s (KEY_ITERATIONS env) \<noteq> pbkdf2 env K s (KEY_ITERATIONS env) \<longrightarrow>
        U_decrypt_report env s K' (fst (U_encrypt_report env s K P w)) = Inl CryptoError) \<and>
     (i < 8 * length (fst (U_encrypt_report env s K P w)) \<longrightarrow>
        U_decrypt_report env s K (bit_flip i (fst (U_encrypt_report env s K P w)))
          = Inl CryptoError)"
proof (intro conjI impI)
  have k: "\<And>x. length (pbkdf2 env x s (KEY_ITERATIONS env)) = KEY_SIZE"
    using assms(1) by (simp add: config_ok_def)
  {
    assume "pbkdf2 env K' s (KEY_ITERATIONS env) \<noteq> pbkdf2 env K s (KEY_ITERATIONS env)"
    then have "SecretBox_decrypt env (pbkdf2 env K' s (KEY_ITERATIONS env))
                 (fst (U_encrypt_report env s K P w)) = None"
      unfolding U_encrypt_report_eq fst_conv
      by (intro SecretBox_wrong_key [OF assms(2) k k utils_random_length])
    then show "U_decrypt_report env s K' (fst (U_encrypt_report env s K P w)) = Inl CryptoError"
      by (rule U_decrypt_report_CryptoError)
  }
  {
    assume "i < 8 * length (fst (U_encrypt_report env s K P w))"
    then have "SecretBox_decrypt env (pbkdf2 env K s (KEY_ITERATIONS env))
                 (bit_flip i (fst (U_encrypt_report env s K P w))) = None"
      unfolding U_encrypt_report_eq fst_conv
      by (intro SecretBox_bit_flip [OF assms(2) k utils_random_length])
    then show "U_decrypt_report env s K (bit_flip i (fst (U_encrypt_report env s K P w)))
                 = Inl CryptoError"
      by (rule U_decrypt_report_CryptoError)
  }
qed

theorem C3_authenticated_witness:
  "config_ok demo_env \<and> secretbox_authenticated demo_env \<and>
   U_decrypt_report demo_env (str_of ''NaCl'') (str_of ''bob456'')
     (fst (U_encrypt_report demo_env (str_of ''NaCl'') (str_of ''alice123'')
             (str_of ''report-A'') 0)) = Inl CryptoError \<and>
   U_decrypt_report demo_env (str_of ''NaCl'') (str_of ''alice123'')
     (bit_flip 100
        (fst (U_encrypt_report demo_env (str_of ''NaCl'') (str_of ''alice123'')
                (str_of ''report-A'') 0))) = Inl CryptoError"
proof -
  have k: "pbkdf2 demo_env (str_of ''bob456'') (str_of ''NaCl'') (KEY_ITERATIONS demo_env)
             \<noteq> pbkdf2 demo_env (str_of ''alice123'') (str_of ''NaCl'') (KEY_ITERATIONS demo_env)"
    using demo_alice_bob [of "str_of ''NaCl''" 1] by (simp add: demo_env_fields)
  have i: "100 < 8 * length (fst (U_encrypt_report demo_env (str_of ''NaCl'')
             (str_of ''alice123'') (str_of ''report-A'') 0))"
    using demo_U_encrypt_report_length
      [of "str_of ''NaCl''" "str_of ''alice123''" "str_of ''report-A''" 0]
    by simp
  show ?thesis
    using C3_authenticated [OF demo_config_ok demo_secretbox_authenticated,
        where K' = "str_of ''bob456''" and s = "str_of ''NaCl''"
          and K = "str_of ''alice123''" and i = 100 and P = "str_of ''report-A''" and w = 0]
      k i demo_config_ok demo_secretbox_authenticated
    by blast
qed



text \<open>
  \<^bold>\<open>C5\<close> (salt), as amended. \<open>encrypt_report\<close> keeps the salt of a report that has one and
  gives a report without one a fresh random string; \<open>encrypt_match_report\<close> always stores a
  fresh random string as the salt.
\<close>

theorem C5_salt:
  "(Report.salt self \<noteq> [] \<longrightarrow>
      Report.salt (fst (encrypt_report env self P key edit autosave w)) = Report.salt self) \<and>
   (Report.salt self = [] \<longrightarrow>
      Report.salt (fst (encrypt_report env self P key edit autosave w))
        = fst (get_random_string env w)) \<and>
   MatchReport.salt (fst (encrypt_match_report env m P key w)) = fst (get_random_string env w)"
  by (simp add: encrypt_report_salt encrypt_match_report_salt)

theorem C5_salt_witness:
  "Report.salt (new_report\<lparr>Report.salt := str_of ''b3PqK''\<rparr>) \<noteq> [] \<and>
   Report.salt (fst (encrypt_report demo_env (new_report\<lparr>Report.salt := str_of ''b3PqK''\<rparr>)
                       (str_of ''report-A'') (str_of ''hunter2'') True False 0))
     = str_of ''b3PqK'' \<and>
   Report.salt new_report = [] \<and>
   Report.salt (fst (encrypt_report demo_env new_report (str_of ''report-A'')
                       (str_of ''hunter2'') False False 0))
     = replicate 12 (scalar_of 97)"
proof -
  have a: "Report.salt (new_report\<lparr>Report.salt := str_of ''b3PqK''\<rparr>) \<noteq> []"
    by (simp add: str_of_Nil_iff)
  have b: "Report.salt new_report = []"
    by (simp add: new_report_def)
  have c: "fst (get_random_string demo_env 0) = replicate 12 (scalar_of 97)"
    by (simp add: demo_env_fields)
  show ?thesis
    using C5_salt [where self = "new_report\<lparr>Report.salt := str_of ''b3PqK''\<rparr>"
        and env = demo_env and P = "str_of ''report-A''" and key = "str_of ''hunter2''"
        and edit = True and autosave = False and w = 0]
      C5_salt [where self = new_report
        and env = demo_env and P = "str_of ''report-A''" and key = "str_of ''hunter2''"
        and edit = False and autosave = False and w = 0]
      a b c
    by simp
qed

text \<open>
  The claim as stated fails for \<open>MatchReport\<close>: a record with the salt \<open>b3PqK\<close> has another
  salt after \<open>encrypt_match_report\<close>.
\<close>

theorem C5_counterexample:
  "MatchReport.salt ((new_match_report 1)\<lparr>MatchReport.salt := str_of ''b3PqK''\<rparr>) \<noteq> [] \<and>
   MatchReport.salt
     (fst (encrypt_match_report demo_env
             ((new_match_report 1)\<lparr>MatchReport.salt := str_of ''b3PqK''\<rparr>)
             (str_of ''report-A'') (str_of ''alice123'') 0))
     \<noteq> MatchReport.salt ((new_match_report 1)\<lparr>MatchReport.salt := str_of ''b3PqK''\<rparr>)"
proof -
  have "length (replicate 12 (scalar_of 97)) \<noteq> length (str_of ''b3PqK'')"
    by (simp add: str_of_def)
  then have "replicate 12 (scalar_of 97) \<noteq> str_of ''b3PqK''"
    by (metis (no_types))
  then show ?thesis
    by (simp add: encrypt_match_report_salt demo_env_fields str_of_Nil_iff)
qed

text \<open>
  \<^bold>\<open>C6\<close> (seen flag), as amended. \<open>get_match\<close> returns the record as it was: the \<open>seen\<close> flag
  is the same after the call, whether the trial decryption succeeded or not.
\<close>

theorem C6_seen:
  "fst (get_match env self ident) = self \<and>
   MatchReport.seen (fst (get_match env self ident)) = MatchReport.seen self"
  by (simp add: get_match_self)

theorem C6_seen_witness:
  "MatchReport.seen (fst (get_match demo_env (new_match_report 1) (str_of ''alice123''))) = False"
  using C6_seen [of demo_env "new_match_report 1" "str_of ''alice123''"]
  by (simp add: new_match_report_def)

text \<open>
  The claim as stated fails: the trial decryption succeeds and the record is still unseen.
\<close>

theorem C6_counterexample:
  "snd (get_match demo_env
          (fst (encrypt_match_report demo_env (new_match_report 1) (str_of ''report-A'')
                  (str_of ''alice123'') 0))
          (str_of ''alice123'')) = Inr (Some (str_of ''report-A'')) \<and>
   \<not> MatchReport.seen
        (fst (get_match demo_env
                (fst (encrypt_match_report demo_env (new_match_report 1) (str_of ''report-A'')
                        (str_of ''alice123'') 0))
                (str_of ''alice123'')))"
  by (simp add: get_match_found [OF demo_config_ok demo_secretbox_inverse] get_match_self
      encrypt_match_report_seen new_match_report_def)

text \<open>
  \<^bold>\<open>C7\<close> (edit timestamp), as amended. \<open>encrypt_report\<close> sets \<open>last_edited\<close> to the current
  time exactly when the report has a salt already and \<open>edit\<close> is true, whatever \<open>autosave\<close>
  is; otherwise \<open>last_edited\<close> is unchanged. \<open>autosave\<close> is stored in \<open>autosaved\<close>.
\<close>

theorem C7_last_edited:
  "last_edited (fst (encrypt_report env self P key edit autosave w)) =
     (if Report.salt self \<noteq> [] \<and> edit then Some (timezone_now env w) else last_edited self) \<and>
   autosaved (fst (encrypt_report env self P key edit autosave w)) = autosave"
  by (simp add: encrypt_report_last_edited encrypt_report_autosaved)

theorem C7_last_edited_witness:
  "last_edited (fst (encrypt_report demo_env (new_report\<lparr>Report.salt := str_of ''b3PqK''\<rparr>)
                       (str_of ''report-A'') (str_of ''hunter2'') True False 5)) = Some 1005 \<and>
   last_edited (fst (encrypt_report demo_env (new_report\<lparr>Report.salt := str_of ''b3PqK''\<rparr>)
                       (str_of ''report-A'') (str_of ''hunter2'') False True 5)) = None"
  using C7_last_edited [where self = "new_report\<lparr>Report.salt := str_of ''b3PqK''\<rparr>"
        and env = demo_env and P = "str_of ''report-A''" and key = "str_of ''hunter2''"
        and edit = True and autosave = False and w = 5]
    C7_last_edited [where self = "new_report\<lparr>Report.salt := str_of ''b3PqK''\<rparr>"
        and env = demo_env and P = "str_of ''report-A''" and key = "str_of ''hunter2''"
        and edit = False and autosave = True and w = 5]
  by (simp add: str_of_Nil_iff demo_env_fields new_report_def)

text \<open>
  The claim as stated fails twice: an autosave with \<open>edit\<close> true changes \<open>last_edited\<close>, and
  a call with \<open>edit\<close> true and \<open>autosave\<close> false on a report without a salt does not set it.
\<close>

theorem C7_counterexample:
  "last_edited (new_report\<lparr>Report.salt := str_of ''b3PqK''\<rparr>) = None \<and>
   last_edited (fst (encrypt_report demo_env (new_report\<lparr>Report.salt := str_of ''b3PqK''\<rparr>)
                       (str_of ''report-A'') (str_of ''hunter2'') True True 5)) = Some 1005 \<and>
   last_edited (fst (encrypt_report demo_env new_report
                       (str_of ''report-A'') (str_of ''hunter2'') True False 5)) = None"
  by (simp add: encrypt_report_last_edited str_of_Nil_iff demo_env_fields new_report_def)

text \<open>
  \<^bold>\<open>C8\<close> (withdrawal). After \<open>withdraw_from_matching\<close> the report has no match report left in
  the table, \<open>match_found\<close> is false, the match reports of other reports are untouched, and
  a second call changes nothing.
\<close>

theorem C8_withdraw:
  "matchreport_set (fst (withdraw_from_matching self ms)) (snd (withdraw_from_matching self ms)) = [] \<and>
   match_found (fst (withdraw_from_matching self ms)) = False \<and>
   filter (\<lambda>m. MatchReport.report m \<noteq> Report.pk self) (snd (withdraw_from_matching self ms))
     = filter (\<lambda>m. MatchReport.report m \<noteq> Report.pk self) ms \<and>
   withdraw_from_matching (fst (withdraw_from_matching self ms))
       (snd (withdraw_from_matching self ms))
     = withdraw_from_matching self ms"
  by (simp add: withdraw_from_matching_def matchreport_set_def Let_def)

theorem C8_withdraw_witness:
  "withdraw_from_matching (new_report\<lparr>match_found := True\<rparr>)
     [new_match_report 1, (new_match_report 2)\<lparr>report := 9\<rparr>, new_match_report 3]
   = (new_report, [(new_match_report 2)\<lparr>report := 9\<rparr>]) \<and>
   withdraw_from_matching new_report [(new_match_report 2)\<lparr>report := 9\<rparr>]
   = (new_report, [(new_match_report 2)\<lparr>report := 9\<rparr>])"
proof -
  have a: "withdraw_from_matching (new_report\<lparr>match_found := True\<rparr>)
     [new_match_report 1, (new_match_report 2)\<lparr>report := 9\<rparr>, new_match_report 3]
   = (new_report, [(new_match_report 2)\<lparr>report := 9\<rparr>])"
    by (simp add: withdraw_from_matching_def new_report_def new_match_report_def)
  show ?thesis
    using C8_withdraw [of "new_report\<lparr>match_found := True\<rparr>"
        "[new_match_report 1, (new_match_report 2)\<lparr>report := 9\<rparr>, new_match_report 3]"]
    unfolding a by simp
qed

text \<open>
  \<^bold>\<open>C9\<close> (blob layout). The blob of \<open>U_encrypt_report\<close> is the box encryption of the encoded
  text under the stretched key with a drawn nonce of the fixed width \<open>NONCE_SIZE\<close>; under
  the layout of the spec it starts with that nonce. \<open>encrypt_match_report\<close> stores the
  pepper encryption of such a blob: the box applied twice, with two nonces drawn one after
  the other. \<open>encrypt_report\<close> stores the blob of \<open>U_encrypt_report\<close> itself, with no
  pepper.
\<close>

theorem C9_layout:
  "(let nonce = fst (utils_random env (NONCE_SIZE env) w);
        blob = fst (U_encrypt_report env s key P w)
    in length nonce = NONCE_SIZE env \<and>
       blob = SecretBox_encrypt env (pbkdf2 env key s (KEY_ITERATIONS env)) (utf8_encode P) nonce \<and>
       (secretbox_layout env \<longrightarrow> take (NONCE_SIZE env) blob = nonce)) \<and>
   (let s' = fst (get_random_string env w);
        w1 = snd (get_random_string env w);
        nonce1 = fst (utils_random env (NONCE_SIZE env) w1);
        w2 = snd (utils_random env (NONCE_SIZE env) w1);
        nonce2 = fst (utils_random env (NONCE_SIZE env) w2)
    in MatchReport.encrypted (fst (encrypt_match_report env m P key w))
         = fst (U_pepper env (fst (U_encrypt_report env s' key P w1)) w2) \<and>
       MatchReport.encrypted (fst (encrypt_match_report env m P key w))
         = SecretBox_encrypt env (PEPPER env)
             (SecretBox_encrypt env (pbkdf2 env key s' (KEY_ITERATIONS env)) (utf8_encode P) nonce1)
             nonce2 \<and>
       (secretbox_layout env \<longrightarrow>
          take (NONCE_SIZE env) (MatchReport.encrypted (fst (encrypt_match_report env m P key w)))
            = nonce2)) \<and>
   (let s' = (if Report.salt self = [] then fst (get_random_string env w) else Report.salt self);
        w1 = (if Report.salt self = [] then snd (get_random_string env w) else w)
    in Report.encrypted (fst (encrypt_report env self P key edit autosave w))
         = fst (U_encrypt_report env s' key P w1) \<and>
       Report.encrypted (fst (encrypt_report env self P key edit autosave w))
         = SecretBox_encrypt env (pbkdf2 env key s' (KEY_ITERATIONS env)) (utf8_encode P)
             (fst (utils_random env (NONCE_SIZE env) w1)))"
proof -
  have lay: "secretbox_layout env \<Longrightarrow>
      take (NONCE_SIZE env) (SecretBox_encrypt env k x (fst (utils_random env (NONCE_SIZE env) v)))
        = fst (utils_random env (NONCE_SIZE env) v)" for k x v
    unfolding secretbox_layout_def by (simp add: utils_random_length)
  have a: "let nonce = fst (utils_random env (NONCE_SIZE env) w);
            blob = fst (U_encrypt_report env s key P w)
        in length nonce = NONCE_SIZE env \<and>
           blob = SecretBox_encrypt env (pbkdf2 env key s (KEY_ITERATIONS env)) (utf8_encode P) nonce \<and>
           (secretbox_layout env \<longrightarrow> take (NONCE_SIZE env) blob = nonce)"
    by (simp add: Let_def U_encrypt_report_eq utils_random_length lay)
  have b: "let s' = fst (get_random_string env w);
        w1 = snd (get_random_string env w);
        nonce1 = fst (utils_random env (NONCE_SIZE env) w1);
        w2 = snd (utils_random env (NONCE_SIZE env) w1);
        nonce2 = fst (utils_random env (NONCE_SIZE env) w2)
    in MatchReport.encrypted (fst (encrypt_match_report env m P key w))
         = fst (U_pepper env (fst (U_encrypt_report env s' key P w1)) w2) \<and>
       MatchReport.encrypted (fst (encrypt_match_report env m P key w))
         = SecretBox_encrypt env (PEPPER env)
             (SecretBox_encrypt env (pbkdf2 env key s' (KEY_ITERATIONS env)) (utf8_encode P) nonce1)
             nonce2 \<and>
       (secretbox_layout env \<longrightarrow>
          take (NONCE_SIZE env) (MatchReport.encrypted (fst (encrypt_match_report env m P key w)))
            = nonce2)"
    by (simp add: Let_def encrypt_match_report_encrypted U_encrypt_report_eq U_pepper_eq lay)
  have c: "let s' = (if Report.salt self = [] then fst (get_random_string env w) else Report.salt self);
        w1 = (if Report.salt self = [] then snd (get_random_string env w) else w)
    in Report.encrypted (fst (encrypt_report env self P key edit autosave w))
         = fst (U_encrypt_report env s' key P w1) \<and>
       Report.encrypted (fst (encrypt_report env self P key edit autosave w))
         = SecretBox_encrypt env (pbkdf2 env key s' (KEY_ITERATIONS env)) (utf8_encode P)
             (fst (utils_random env (NONCE_SIZE env) w1))"
    by (simp add: Let_def encrypt_report_encrypted U_encrypt_report_eq)
  show ?thesis by (intro conjI a b c)
qed

theorem C9_layout_witness:
  "secretbox_layout demo_env \<and>
   take 24 (fst (U_encrypt_report demo_env (str_of ''NaCl'') (str_of ''alice123'')
                   (str_of ''report-A'') 0))
     = map of_nat [0..<24] \<and>
   MatchReport.encrypted
     (fst (encrypt_match_report demo_env (new_match_report 1) (str_of ''report-A'')
             (str_of ''alice123'') 0))
     = SecretBox_encrypt demo_env (PEPPER demo_env)
         (SecretBox_encrypt demo_env
            (pbkdf2 demo_env (str_of ''alice123'') (replicate 12 (scalar_of 97)) 1)
            (utf8_encode (str_of ''report-A'')) (map of_nat [1..<25]))
         (map of_nat [25..<49]) \<and>
   take 24 (MatchReport.encrypted
              (fst (encrypt_match_report demo_env (new_match_report 1) (str_of ''report-A'')
                      (str_of ''alice123'') 0)))
     = map of_nat [25..<49]"
proof -
  have r: "\<And>w. fst (utils_random demo_env 24 w) = map of_nat [w..<w + 24]"
    "\<And>w. snd (utils_random demo_env 24 w) = w + 24"
    by (simp_all add: demo_utils_random)
  have g: "fst (get_random_string demo_env 0) = replicate 12 (scalar_of 97)"
    "snd (get_random_string demo_env 0) = 1"
    by (simp_all add: demo_env_fields)
  have i: "KEY_ITERATIONS demo_env = 1" "NONCE_SIZE demo_env = 24"
    by (simp_all add: demo_env_fields)
  have n: "(0::nat) + 24 = 24" "(1::nat) + 24 = 25" "(25::nat) + 24 = 49"
    by simp_all
  note c = C9_layout [where env = demo_env and w = 0 and s = "str_of ''NaCl''"
      and key = "str_of ''alice123''" and P = "str_of ''report-A''"
      and m = "new_match_report 1", unfolded Let_def i r g n]
  have w1: "take 24 (fst (U_encrypt_report demo_env (str_of ''NaCl'') (str_of ''alice123'')
                   (str_of ''report-A'') 0)) = map of_nat [0..<24]"
    by (rule c [THEN conjunct1, THEN conjunct2, THEN conjunct2, THEN mp,
          OF demo_secretbox_layout])
  have w2: "MatchReport.encrypted
     (fst (encrypt_match_report demo_env (new_match_report 1) (str_of ''report-A'')
             (str_of ''alice123'') 0))
     = SecretBox_encrypt demo_env (PEPPER demo_env)
         (SecretBox_encrypt demo_env
            (pbkdf2 demo_env (str_of ''alice123'') (replicate 12 (scalar_of 97)) 1)
            (utf8_encode (str_of ''report-A'')) (map of_nat [1..<25]))
         (map of_nat [25..<49])"
    by (rule c [THEN conjunct2, THEN conjunct1, THEN conjunct2, THEN conjunct1])
  have w3: "take 24 (MatchReport.encrypted
              (fst (encrypt_match_report demo_env (new_match_report 1) (str_of ''report-A'')
                      (str_of ''alice123'') 0)))
     = map of_nat [25..<49]"
    by (rule c [THEN conjunct2, THEN conjunct1, THEN conjunct2, THEN conjunct2, THEN mp,
          OF demo_secretbox_layout])
  show ?thesis by (intro conjI demo_secretbox_layout w1 w2 w3)
qed

text \<open>
  \<^bold>\<open>C10\<close> (trial matching and errors), as amended. \<open>get_match\<close> never raises \<open>CryptoError\<close>:
  when the unpepper step or the decryption step raises it, the call returns \<open>None\<close>. The
  call is not total: an error of \<open>U_decrypt_report\<close> that is not a \<open>CryptoError\<close> is not
  caught, so the \<open>UnicodeDecodeError\<close> of its last step leaves \<open>get_match\<close>. When both steps
  return, \<open>get_match\<close> returns the decrypted text.
\<close>

theorem C10_get_match_total:
  "snd (get_match env self ident) \<noteq> Inl CryptoError \<and>
   (U_unpepper env (MatchReport.encrypted self) = Inl CryptoError \<longrightarrow>
      snd (get_match env self ident) = Inr None) \<and>
   (U_unpepper env (MatchReport.encrypted self) = Inr u \<longrightarrow>
    U_decrypt_report env (MatchReport.salt self) ident u = Inl CryptoError \<longrightarrow>
      snd (get_match env self ident) = Inr None) \<and>
   (U_unpepper env (MatchReport.encrypted self) = Inr u \<longrightarrow>
    U_decrypt_report env (MatchReport.salt self) ident u = Inl UnicodeDecodeError \<longrightarrow>
      snd (get_match env self ident) = Inl UnicodeDecodeError) \<and>
   (U_unpepper env (MatchReport.encrypted self) = Inr u \<longrightarrow>
    U_decrypt_report env (MatchReport.salt self) ident u = Inr txt \<longrightarrow>
      snd (get_match env self ident) = Inr (Some txt))"
proof (intro conjI impI)
  show "snd (get_match env self ident) \<noteq> Inl CryptoError"
    by (simp add: get_match_cases split: option.splits sum.splits)
  show "U_unpepper env (MatchReport.encrypted self) = Inl CryptoError \<Longrightarrow>
        snd (get_match env self ident) = Inr None"
    by (rule get_match_unpepper_fails)
  show "U_unpepper env (MatchReport.encrypted self) = Inr u \<Longrightarrow>
        U_decrypt_report env (MatchReport.salt self) ident u = Inl CryptoError \<Longrightarrow>
        snd (get_match env self ident) = Inr None"
    by (simp add: get_match_def)
  show "U_unpepper env (MatchReport.encrypted self) = Inr u \<Longrightarrow>
        U_decrypt_report env (MatchReport.salt self) ident u = Inl UnicodeDecodeError \<Longrightarrow>
        snd (get_match env self ident) = Inl UnicodeDecodeError"
    by (simp add: get_match_def)
  show "U_unpepper env (MatchReport.encrypted self) = Inr u \<Longrightarrow>
        U_decrypt_report env (MatchReport.salt self) ident u = Inr txt \<Longrightarrow>
        snd (get_match env self ident) = Inr (Some txt)"
    by (simp add: get_match_def)
qed

theorem C10_get_match_total_witness:
  "(let alice = str_of ''alice123''; bob = str_of ''bob456'';
        m = fst (encrypt_match_report demo_env (new_match_report 1) (str_of ''report-A'')
                   alice 0)
    in snd (get_match demo_env
              (m\<lparr>MatchReport.encrypted := bit_flip 7 (MatchReport.encrypted m)\<rparr>) alice)
         = Inr None \<and>
       snd (get_match demo_env m bob) = Inr None \<and>
       snd (get_match demo_env m alice) = Inr (Some (str_of ''report-A'')))"
proof -
  let ?alice = "str_of ''alice123''" and ?bob = "str_of ''bob456''"
  let ?m = "fst (encrypt_match_report demo_env (new_match_report 1) (str_of ''report-A'')
                   ?alice 0)"
  let ?s = "fst (get_random_string demo_env 0)"
  let ?e = "U_encrypt_report demo_env ?s ?alice (str_of ''report-A'')
              (snd (get_random_string demo_env 0))"
  have enc: "MatchReport.encrypted ?m = fst (U_pepper demo_env (fst ?e) (snd ?e))"
    by (rule encrypt_match_report_encrypted)
  have s: "MatchReport.salt ?m = ?s"
    by (rule encrypt_match_report_salt)
  have u: "U_unpepper demo_env (MatchReport.encrypted ?m) = Inr (fst ?e)"
    unfolding enc by (rule U_unpepper_pepper [OF demo_config_ok demo_secretbox_inverse])
  have "7 < 8 * length (fst (U_pepper demo_env (fst ?e) (snd ?e)))"
    using demo_U_pepper_length [of "fst ?e" "snd ?e"] by simp
  then have f: "U_unpepper demo_env (bit_flip 7 (MatchReport.encrypted ?m)) = Inl CryptoError"
    unfolding enc by (rule U_unpepper_bit_flip [OF demo_config_ok demo_secretbox_authenticated])
  have k: "pbkdf2 demo_env ?bob ?s (KEY_ITERATIONS demo_env)
             \<noteq> pbkdf2 demo_env ?alice ?s (KEY_ITERATIONS demo_env)"
    using demo_alice_bob [of ?s 1] by (simp add: demo_env_fields)
  have b: "U_decrypt_report demo_env (MatchReport.salt ?m) ?bob (fst ?e) = Inl CryptoError"
    unfolding s
    by (rule U_decrypt_report_other_key [OF demo_config_ok demo_secretbox_authenticated k])
  have a: "U_decrypt_report demo_env (MatchReport.salt ?m) ?alice (fst ?e)
             = Inr (str_of ''report-A'')"
    unfolding s by (rule U_decrypt_encrypt [OF demo_config_ok demo_secretbox_inverse])
  have f': "U_unpepper demo_env
              (MatchReport.encrypted
                 (?m\<lparr>MatchReport.encrypted := bit_flip 7 (MatchReport.encrypted ?m)\<rparr>))
            = Inl CryptoError"
    using f by simp
  have w1: "snd (get_match demo_env
              (?m\<lparr>MatchReport.encrypted := bit_flip 7 (MatchReport.encrypted ?m)\<rparr>) ?alice)
            = Inr None"
    by (rule C10_get_match_total [THEN conjunct2, THEN conjunct1, THEN mp, OF f'])
  have w2: "snd (get_match demo_env ?m ?bob) = Inr None"
    by (rule C10_get_match_total
          [THEN conjunct2, THEN conjunct2, THEN conjunct1, THEN mp, THEN mp, OF u b])
  have w3: "snd (get_match demo_env ?m ?alice) = Inr (Some (str_of ''report-A''))"
    by (rule C10_get_match_total
          [THEN conjunct2, THEN conjunct2, THEN conjunct2, THEN conjunct2, THEN mp, THEN mp,
           OF u a])
  show ?thesis
    unfolding Let_def by (intro conjI w1 w2 w3)
qed

text \<open>
  The claim as stated fails: on a blob that is the pepper box of the key box of the byte
  \<open>0xFF\<close>, \<open>get_match\<close> raises \<open>UnicodeDecodeError\<close>.
\<close>

theorem C10_counterexample:
  "snd (get_match demo_env
          ((new_match_report 1)
             \<lparr>MatchReport.encrypted :=
                SecretBox_encrypt demo_env (PEPPER demo_env)
                  (SecretBox_encrypt demo_env
                     (pbkdf2 demo_env (str_of ''alice123'') (str_of ''NaCl'')
                        (KEY_ITERATIONS demo_env))
                     [0xFF] (replicate 24 0))
                  (replicate 24 1),
              MatchReport.salt := str_of ''NaCl''\<rparr>)
          (str_of ''alice123''))
   = Inl UnicodeDecodeError"
  by (rule get_match_undecodable [OF demo_config_ok demo_secretbox_inverse _ _ utf8_decode_invalid])
    (simp_all add: demo_env_fields)

end
